theory Spec2Isabelle
  imports Complex_Main "HOL-Library.Multiset"
begin

section \<open>JavaScript strings\<close>

text \<open>
  Strings are lists of characters whose code units lie below 256. The three string
  operations the frontend uses are \<^verbatim>\<open>String.prototype.includes\<close>,
  \<^verbatim>\<open>String.prototype.trim\<close> and the template literal \<^verbatim>\<open>`Bearer ${x}`\<close>.
\<close>

fun startsWith :: "string \<Rightarrow> string \<Rightarrow> bool" where
  "startsWith s [] = True"
| "startsWith [] (p # ps) = False"
| "startsWith (c # cs) (p # ps) = (c = p \<and> startsWith cs ps)"

fun includesStr :: "string \<Rightarrow> string \<Rightarrow> bool" where
  "includesStr [] p = (p = [])"
| "includesStr (c # cs) p = (startsWith (c # cs) p \<or> includesStr cs p)"

text \<open>
  White space and line terminators of ECMAScript among the code units below 256:
  TAB, LF, VT, FF, CR, SP and NBSP.
\<close>

definition isWhiteSpace :: "char \<Rightarrow> bool" where
  "isWhiteSpace c = ((of_char c :: nat) \<in> {9, 10, 11, 12, 13, 32, 160})"

definition trim :: "string \<Rightarrow> string" where
  "trim s = rev (dropWhile isWhiteSpace (rev (dropWhile isWhiteSpace s)))"

definition bearer :: "string \<Rightarrow> string" where
  "bearer x = ''Bearer '' @ x"

section \<open>axios requests and responses\<close>

record identity =
  client_name :: string
  client_email :: string

text \<open>A JavaScript number as the certificate form holds it: an integer or NaN.\<close>

datatype js_number = NaN | Number int

record new_certificate = identity +
  expires_days :: js_number

record certificate_entry = identity +
  certificate_id :: string
  issued_at :: int
  expires_at :: int
  is_active :: bool
  signed_certificate :: string

datatype http_method = GET | POST

datatype request_body =
    NoBody
  | EmptyObject
  | LoginBody string
  | CertificateRequest new_certificate

record http_config =
  url :: string
  request_method :: http_method
  headers :: "string \<rightharpoonup> string"
  body :: request_body

text \<open>
  A JSON value as \<^verbatim>\<open>JSON.parse\<close> gives it to the frontend, and what JavaScript takes as
  true in a condition or on the left of \<^verbatim>\<open>||\<close>: every value but \<^verbatim>\<open>null\<close>, \<^verbatim>\<open>false\<close>,
  zero and the empty string. A number is the rational it denotes.
\<close>

datatype json =
    JNull
  | JBool bool
  | JNumber rat
  | JString string
  | JArray "json list"
  | JObject "(string \<times> json) list"

fun truthy :: "json \<Rightarrow> bool" where
  "truthy JNull = False"
| "truthy (JBool b) = b"
| "truthy (JNumber n) = (n \<noteq> 0)"
| "truthy (JString s) = (s \<noteq> [])"
| "truthy (JArray xs) = True"
| "truthy (JObject members) = True"

text \<open>
  A response body is a JSON object; the fields that \<^verbatim>\<open>login\<close> and the admin panel
  read are \<^verbatim>\<open>user\<close>, \<^verbatim>\<open>detail\<close> and \<^verbatim>\<open>certificates\<close>. The \<^verbatim>\<open>detail\<close> is any JSON value,
  or absent.
\<close>

record response_data =
  data_user :: "identity option"
  data_detail :: "json option"
  data_certificates :: "certificate_entry list"

record http_response =
  status :: nat
  data :: response_data

text \<open>What comes back from the network: a response, or nothing (network error).\<close>

datatype server_reply = Reply http_response | NoReply

text \<open>
  What the awaited axios promise gives: it resolves with the response when the status
  is 2xx (the default \<^verbatim>\<open>validateStatus\<close>) and rejects with an error otherwise;
  \<^verbatim>\<open>error.response\<close> is the response when there was one.
\<close>

datatype axios_result = Resolved http_response | Rejected "http_response option"

definition validateStatus :: "nat \<Rightarrow> bool" where
  "validateStatus s = (200 \<le> s \<and> s < 300)"

section \<open>AuthContext.js\<close>

text \<open>
  The state of \<^verbatim>\<open>AuthProvider\<close> (\<^verbatim>\<open>user\<close>, \<^verbatim>\<open>certificate\<close>, \<^verbatim>\<open>loading\<close>), the
  browser's \<^verbatim>\<open>localStorage\<close>, and the requests that have left the browser so far,
  oldest first, as they were after the request interceptor.
\<close>

record world =
  user :: "identity option"
  certificate :: "string option"
  loading :: bool
  localStorage :: "string \<rightharpoonup> string"
  wire :: "http_config list"

text \<open>The server: any deterministic function of the requests seen so far and the new one.\<close>

type_synonym server = "http_config list \<Rightarrow> http_config \<Rightarrow> server_reply"

definition API :: "string \<Rightarrow> string" where
  "API BACKEND_URL = BACKEND_URL @ ''/api''"

text \<open>
  The request interceptor (AuthContext.js, lines 24-35). A stored certificate counts when
  it is truthy: present and not the empty string.
\<close>

definition requestInterceptor :: "(string \<rightharpoonup> string) \<Rightarrow> http_config \<Rightarrow> http_config" where
  "requestInterceptor ls config =
     (case ls ''joinery_certificate'' of
        None \<Rightarrow> config
      | Some storedCertificate \<Rightarrow>
          if storedCertificate \<noteq> [] \<and> includesStr (url config) ''/api/''
          then config\<lparr>headers := (headers config)(''Authorization'' \<mapsto> bearer storedCertificate)\<rparr>
          else config)"

definition logout :: "world \<Rightarrow> world" where
  "logout w = w\<lparr>user := None, certificate := None,
                localStorage := (localStorage w)(''joinery_certificate'' := None)\<rparr>"

definition isAuthenticated :: "world \<Rightarrow> bool" where
  "isAuthenticated w = (user w \<noteq> None \<and> certificate w \<noteq> None)"

text \<open>
  The rejection handler of the response interceptor (lines 40-45):
  \<^verbatim>\<open>error.response?.status === 401\<close> logs out; the error is rejected again either way.
\<close>

definition responseInterceptor :: "world \<Rightarrow> http_response option \<Rightarrow> world" where
  "responseInterceptor w err =
     (case err of
        None \<Rightarrow> w
      | Some r \<Rightarrow> if status r = 401 then logout w else w)"

text \<open>
  One axios call with both interceptors installed: the request interceptor rewrites the
  config, the request goes out, and a rejection passes through the response interceptor.
\<close>

definition axios_request :: "server \<Rightarrow> world \<Rightarrow> http_config \<Rightarrow> axios_result \<times> world" where
  "axios_request srv w config =
     (let sent = requestInterceptor (localStorage w) config;
          w1 = w\<lparr>wire := wire w @ [sent]\<rparr>
      in case srv (wire w) sent of
           NoReply \<Rightarrow> (Rejected None, responseInterceptor w1 None)
         | Reply r \<Rightarrow>
             if validateStatus (status r) then (Resolved r, w1)
             else (Rejected (Some r), responseInterceptor w1 (Some r)))"

definition axios_get :: "server \<Rightarrow> world \<Rightarrow> string \<Rightarrow> (string \<rightharpoonup> string) \<Rightarrow> axios_result \<times> world" where
  "axios_get srv w u hs = axios_request srv w \<lparr>url = u, request_method = GET, headers = hs, body = NoBody\<rparr>"

definition axios_post :: "server \<Rightarrow> world \<Rightarrow> string \<Rightarrow> request_body \<Rightarrow> (string \<rightharpoonup> string)
    \<Rightarrow> axios_result \<times> world" where
  "axios_post srv w u b hs = axios_request srv w \<lparr>url = u, request_method = POST, headers = hs, body = b\<rparr>"

text \<open>What \<^verbatim>\<open>login\<close> returns: \<^verbatim>\<open>{ success: true, user }\<close> or \<^verbatim>\<open>{ success: false, error }\<close>.\<close>

datatype login_result = Success identity | Failure json

definition success :: "login_result \<Rightarrow> bool" where
  "success r = (case r of Success u \<Rightarrow> True | Failure e \<Rightarrow> False)"

text \<open>
  \<^verbatim>\<open>error.response?.data?.detail || fallback\<close>: the detail as it is when there is one
  and it is truthy, the fallback string otherwise.
\<close>

definition detailOr :: "string \<Rightarrow> http_response option \<Rightarrow> json" where
  "detailOr fallback err =
     (case err of
        None \<Rightarrow> JString fallback
      | Some r \<Rightarrow>
          (case data_detail (data r) of
             None \<Rightarrow> JString fallback
           | Some d \<Rightarrow> if truthy d then d else JString fallback))"

text \<open>\<^verbatim>\<open>login\<close> (lines 83-107).\<close>

definition login :: "string \<Rightarrow> server \<Rightarrow> world \<Rightarrow> string \<Rightarrow> login_result \<times> world" where
  "login BACKEND_URL srv w certificateString =
     (let w0 = w\<lparr>loading := True\<rparr>;
          (response, w1) = axios_post srv w0 (API BACKEND_URL @ ''/auth/login'')
                             (LoginBody certificateString) Map.empty
      in case response of
           Resolved r \<Rightarrow>
             (case data_user (data r) of
                Some u \<Rightarrow>
                  (Success u,
                   w1\<lparr>user := Some u, certificate := Some certificateString,
                      localStorage := (localStorage w1)(''joinery_certificate'' \<mapsto> certificateString),
                      loading := False\<rparr>)
              | None \<Rightarrow> (Failure (JString ''Invalid certificate''), w1\<lparr>loading := False\<rparr>))
         | Rejected err \<Rightarrow> (Failure (detailOr ''Authentication failed'' err), w1\<lparr>loading := False\<rparr>))"

text \<open>The config that \<^verbatim>\<open>axios.post(`${API}/auth/login`, { certificate })\<close> builds.\<close>

abbreviation loginRequest :: "string \<Rightarrow> string \<Rightarrow> http_config" where
  "loginRequest BACKEND_URL certificateString \<equiv>
     \<lparr>url = API BACKEND_URL @ ''/auth/login'', request_method = POST,
      headers = Map.empty, body = LoginBody certificateString\<rparr>"

text \<open>
  The state in which \<^verbatim>\<open>AuthProvider\<close> starts (lines 18-20), over a given localStorage
  and with nothing sent yet.
\<close>

definition initialWorld :: "(string \<rightharpoonup> string) \<Rightarrow> world" where
  "initialWorld ls = \<lparr>user = None, certificate = None, loading = True, localStorage = ls, wire = []\<rparr>"

text \<open>A server that answers every request with the same response.\<close>

definition replyWith :: "http_response \<Rightarrow> server" where
  "replyWith r seen q = Reply r"

text \<open>A 401 response whose body carries the given string as its detail.\<close>

definition unauthorized :: "string \<Rightarrow> http_response" where
  "unauthorized d =
     \<lparr>status = 401, data = \<lparr>data_user = None, data_detail = Some (JString d),
                      data_certificates = []\<rparr>\<rparr>"

section \<open>LoginPage.js: the login form\<close>

text \<open>
  The state of \<^verbatim>\<open>LoginPage\<close>: \<^verbatim>\<open>certificate\<close>, \<^verbatim>\<open>error\<close>, \<^verbatim>\<open>loading\<close>. The error
  starts as the empty string and holds whatever \<^verbatim>\<open>setError\<close> is given.
\<close>

record login_page =
  page_certificate :: string
  page_error :: json
  page_loading :: bool

text \<open>
  \<^verbatim>\<open>handleLogin\<close> (lines 10-27). \<^verbatim>\<open>!certificate.trim()\<close> holds when the trimmed text is
  the empty string.
\<close>

definition handleLogin :: "string \<Rightarrow> server \<Rightarrow> login_page \<times> world \<Rightarrow> login_page \<times> world" where
  "handleLogin BACKEND_URL srv pw =
     (let (p, w) = pw in
      if trim (page_certificate p) = []
      then (p\<lparr>page_error := JString ''Please enter your certificate''\<rparr>, w)
      else
        let p1 = p\<lparr>page_loading := True, page_error := JString []\<rparr>;
            (result, w1) = login BACKEND_URL srv w (trim (page_certificate p));
            p2 = (case result of Failure e \<Rightarrow> p1\<lparr>page_error := e\<rparr> | Success u \<Rightarrow> p1)
        in (p2\<lparr>page_loading := False\<rparr>, w1))"

section \<open>LoginPage.js: the admin panel\<close>

text \<open>
  \<^verbatim>\<open>parseInt(string)\<close> with no radix: leading white space is skipped, a sign is read,
  a \<^verbatim>\<open>0x\<close> prefix selects radix 16, and the longest run of digits is the value; with no
  digit the result is NaN. (Integers are exact here; beyond 2^53 JavaScript rounds.)
  \<open>digitValue\<close> gives 36, a digit of no radix, to a character that is not
  alphanumeric.
\<close>

definition digitValue :: "char \<Rightarrow> nat" where
  "digitValue c =
     (let n = (of_char c :: nat) in
      if 48 \<le> n \<and> n \<le> 57 then n - 48
      else if 97 \<le> n \<and> n \<le> 122 then n - 87
      else if 65 \<le> n \<and> n \<le> 90 then n - 55
      else 36)"

definition parseInt :: "string \<Rightarrow> js_number" where
  "parseInt s =
     (let s1 = dropWhile isWhiteSpace s;
          negative = startsWith s1 ''-'';
          s2 = (if startsWith s1 ''-'' \<or> startsWith s1 ''+'' then tl s1 else s1);
          hex = (startsWith s2 ''0x'' \<or> startsWith s2 ''0X'');
          radix = (if hex then 16 else 10);
          s3 = (if hex then drop 2 s2 else s2);
          digits = takeWhile (\<lambda>c. digitValue c < radix) s3;
          magnitude = int (foldl (\<lambda>acc c. acc * radix + digitValue c) 0 digits)
      in if digits = [] then NaN else Number (if negative then - magnitude else magnitude))"

text \<open>The state of \<^verbatim>\<open>AdminPanel\<close> (lines 157-167).\<close>

record admin_panel =
  adminSecret :: string
  admin_isAuthenticated :: bool
  certificates :: "certificate_entry list"
  newCertificate :: new_certificate
  generatedCertificate :: "response_data option"
  admin_loading :: bool
  admin_error :: json

definition emptyCertificate :: new_certificate where
  "emptyCertificate = \<lparr>client_name = [], client_email = [], expires_days = Number 365\<rparr>"

definition initialAdminPanel :: admin_panel where
  "initialAdminPanel =
     \<lparr>adminSecret = [], admin_isAuthenticated = False, certificates = [],
      newCertificate = emptyCertificate, generatedCertificate = None,
      admin_loading = False, admin_error = JString []\<rparr>"

text \<open>The \<^verbatim>\<open>onChange\<close> handler of the "Expires In (Days)" input (line 361).\<close>

definition changeExpiresDays :: "string \<Rightarrow> admin_panel \<Rightarrow> admin_panel" where
  "changeExpiresDays targetValue a =
     a\<lparr>newCertificate := (newCertificate a)\<lparr>expires_days := parseInt targetValue\<rparr>\<rparr>"

text \<open>
  The input is declared \<^verbatim>\<open>type="number" min="1" max="3650"\<close>, without \<^verbatim>\<open>required\<close> and
  with the default step 1 (lines 358-365). The browser fires \<^verbatim>\<open>onSubmit\<close> only when the
  value of the input violates none of these constraints: an empty value violates none,
  and any other value must be a whole number from the minimum to the maximum. The
  browser's reading of a non-empty value as a whole number is the parameter
  \<open>wholeNumber\<close> (\<open>None\<close> when the value is not one).
\<close>

definition expiresDaysSubmittable :: "(string \<Rightarrow> int option) \<Rightarrow> string \<Rightarrow> bool" where
  "expiresDaysSubmittable wholeNumber targetValue =
     (if targetValue = [] then True
      else case wholeNumber targetValue of
             None \<Rightarrow> False
           | Some n \<Rightarrow> 1 \<le> n \<and> n \<le> 3650)"

definition adminHeaders :: "admin_panel \<Rightarrow> (string \<rightharpoonup> string)" where
  "adminHeaders a = [''Authorization'' \<mapsto> bearer (adminSecret a)]"

text \<open>\<^verbatim>\<open>authenticateAdmin\<close> (lines 169-187).\<close>

definition authenticateAdmin :: "string \<Rightarrow> server \<Rightarrow> admin_panel \<times> world \<Rightarrow> admin_panel \<times> world" where
  "authenticateAdmin BACKEND_URL srv aw =
     (let (a, w) = aw;
          a1 = a\<lparr>admin_error := JString [], admin_loading := True\<rparr>;
          (response, w1) = axios_get srv w (API BACKEND_URL @ ''/admin/certificates'') (adminHeaders a)
      in case response of
           Resolved r \<Rightarrow>
             (a1\<lparr>admin_isAuthenticated := True, certificates := data_certificates (data r),
                 admin_loading := False\<rparr>, w1)
         | Rejected err \<Rightarrow>
             (a1\<lparr>admin_error := JString ''Invalid admin secret. Please check your credentials.'',
                 admin_loading := False\<rparr>, w1))"

text \<open>\<^verbatim>\<open>generateCertificate\<close> (lines 189-213).\<close>

definition generateCertificate :: "string \<Rightarrow> server \<Rightarrow> admin_panel \<times> world \<Rightarrow> admin_panel \<times> world" where
  "generateCertificate BACKEND_URL srv aw =
     (let (a, w) = aw;
          a1 = a\<lparr>admin_error := JString [], admin_loading := True\<rparr>;
          (response, w1) = axios_post srv w (API BACKEND_URL @ ''/admin/generate-certificate'')
                             (CertificateRequest (newCertificate a)) (adminHeaders a)
      in case response of
           Rejected err \<Rightarrow>
             (a1\<lparr>admin_error := detailOr ''Error generating certificate'' err,
                 admin_loading := False\<rparr>, w1)
         | Resolved r \<Rightarrow>
             (let a2 = a1\<lparr>generatedCertificate := Some (data r), newCertificate := emptyCertificate\<rparr>;
                  (certsResponse, w2) =
                     axios_get srv w1 (API BACKEND_URL @ ''/admin/certificates'') (adminHeaders a)
              in case certsResponse of
                   Resolved r2 \<Rightarrow>
                     (a2\<lparr>certificates := data_certificates (data r2), admin_loading := False\<rparr>, w2)
                 | Rejected err \<Rightarrow>
                     (a2\<lparr>admin_error := detailOr ''Error generating certificate'' err,
                         admin_loading := False\<rparr>, w2)))"

text \<open>
  \<^verbatim>\<open>revokeCertificate\<close> (lines 215-232); \<open>confirmed\<close> is the answer to the
  \<^verbatim>\<open>confirm\<close> dialog.
\<close>

definition revokeCertificate :: "string \<Rightarrow> server \<Rightarrow> bool \<Rightarrow> admin_panel \<times> world \<Rightarrow> string
    \<Rightarrow> admin_panel \<times> world" where
  "revokeCertificate BACKEND_URL srv confirmed aw certificateId =
     (let (a, w) = aw in
      if \<not> confirmed then (a, w)
      else
        let (response, w1) =
              axios_post srv w
                (API BACKEND_URL @ ''/admin/revoke-certificate?certificate_id='' @ certificateId)
                EmptyObject (adminHeaders a)
        in case response of
             Rejected err \<Rightarrow> (a\<lparr>admin_error := detailOr ''Error revoking certificate'' err\<rparr>, w1)
           | Resolved r \<Rightarrow>
               (let (response2, w2) =
                      axios_get srv w1 (API BACKEND_URL @ ''/admin/certificates'') (adminHeaders a)
                in case response2 of
                     Resolved r2 \<Rightarrow> (a\<lparr>certificates := data_certificates (data r2)\<rparr>, w2)
                   | Rejected err \<Rightarrow>
                       (a\<lparr>admin_error := detailOr ''Error revoking certificate'' err\<rparr>, w2)))"

text \<open>
  One row of the certificate table (lines 429-467): the React key, the cells, the status
  badge, whether the Revoke button is shown, and the text the Copy button copies. The
  two date cells are kept as the timestamps they format.
\<close>

record certificate_row =
  row_key :: string
  row_client :: string
  row_email :: string
  row_issued :: int
  row_expires :: int
  row_status :: string
  row_revoke :: bool
  row_copy :: string

definition certificateRow :: "certificate_entry \<Rightarrow> certificate_row" where
  "certificateRow cert =
     \<lparr>row_key = certificate_id cert, row_client = client_name cert,
      row_email = client_email cert, row_issued = issued_at cert,
      row_expires = expires_at cert,
      row_status = (if is_active cert then ''Active'' else ''Revoked''),
      row_revoke = is_active cert, row_copy = signed_certificate cert\<rparr>"

definition certificateRows :: "admin_panel \<Rightarrow> certificate_row list" where
  "certificateRows a = map certificateRow (certificates a)"

section \<open>The certificate authority behind the API\<close>

text \<open>
  The server side (key authority, issuer, store, verifier) is not among the sources of
  the frontend; the definitions of this section follow the specification.
\<close>

text \<open>
  Modelled from the spec: the AuthFailure taxonomy (section 7) and the NotFound outcome
  of the store operations (section 4.3).
\<close>

datatype AuthFailure = Malformed | InvalidSignature | Expired | Unknown | Revoked

datatype StoreError = NotFound

text \<open>Modelled from the spec: the claims a certificate carries (section 3, Certificate).\<close>

record claims =
  claim_certificate_id :: string
  claim_client_name :: string
  claim_client_email :: string
  claim_issued_at :: int
  claim_expires_at :: int

text \<open>Modelled from the spec: AuthenticatedIdentity (section 3).\<close>

record authenticated_identity =
  auth_client_name :: string
  auth_client_email :: string
  auth_certificate_id :: string

text \<open>
  Modelled from the spec: CertificateStore (section 4.3), a collection of
  CertificateRecord entries, each with the fields of the listing response.
  \<open>get\<close> looks a record up by its identifier.
\<close>

definition get :: "certificate_entry list \<Rightarrow> string \<Rightarrow> certificate_entry option" where
  "get store cid = find (\<lambda>r. certificate_id r = cid) store"

text \<open>
  Modelled from the spec: CertificateStore.revoke (section 4.3) sets \<open>is_active\<close> to
  false on the record with the identifier, and reports NotFound when there is none.
\<close>

definition revoke :: "certificate_entry list \<Rightarrow> string \<Rightarrow> StoreError + certificate_entry list" where
  "revoke store cid =
     (case get store cid of
        None \<Rightarrow> Inl NotFound
      | Some r \<Rightarrow> Inr (map (\<lambda>r. if certificate_id r = cid then r\<lparr>is_active := False\<rparr> else r) store))"

text \<open>
  Modelled from the spec: CertificateStore.list (section 4.3) returns the records
  ordered by issuance time, most recent first.
\<close>

definition list_records :: "certificate_entry list \<Rightarrow> certificate_entry list" where
  "list_records store = sort_key (\<lambda>r. - issued_at r) store"

text \<open>
  Modelled from the spec: CertificateVerifier.verify (section 4.4), steps 1 to 5 in
  order. The encoding of a certificate string (\<open>parse\<close>) and the signature check of
  the key authority (\<open>verify_signature\<close>) are parameters.
\<close>

definition verify :: "(string \<Rightarrow> (claims \<times> string) option) \<Rightarrow> (claims \<Rightarrow> string \<Rightarrow> bool) \<Rightarrow> int
    \<Rightarrow> certificate_entry list \<Rightarrow> string \<Rightarrow> AuthFailure + authenticated_identity" where
  "verify parse verify_signature current_time store certificate_string =
     (case parse certificate_string of
        None \<Rightarrow> Inl Malformed
      | Some (cl, signature) \<Rightarrow>
          if \<not> verify_signature cl signature then Inl InvalidSignature
          else if \<not> current_time \<le> claim_expires_at cl then Inl Expired
          else (case get store (claim_certificate_id cl) of
                  None \<Rightarrow> Inl Unknown
                | Some r \<Rightarrow>
                    if \<not> is_active r then Inl Revoked
                    else Inr \<lparr>auth_client_name = claim_client_name cl,
                              auth_client_email = claim_client_email cl,
                              auth_certificate_id = claim_certificate_id cl\<rparr>))"

section \<open>Properties of the string operations\<close>

lemma startsWith_iff: "startsWith s p \<longleftrightarrow> (\<exists>b. s = p @ b)"
  by (induction s p rule: startsWith.induct) auto

lemma includes_iff: "includesStr s p \<longleftrightarrow> (\<exists>a b. s = a @ p @ b)"
proof (induction s)
  case Nil
  then show ?case by auto
next
  case (Cons c cs)
  show ?case
  proof
    assume "includesStr (c # cs) p"
    then consider "startsWith (c # cs) p" | "includesStr cs p" by auto
    then show "\<exists>a b. c # cs = a @ p @ b"
    proof cases
      case 1
      then obtain b where "c # cs = p @ b" using startsWith_iff by blast
      then have "c # cs = [] @ p @ b" by simp
      then show ?thesis by blast
    next
      case 2
      then obtain a b where "cs = a @ p @ b" using Cons.IH by blast
      then have "c # cs = (c # a) @ p @ b" by simp
      then show ?thesis by blast
    qed
  next
    assume "\<exists>a b. c # cs = a @ p @ b"
    then obtain a b where ab: "c # cs = a @ p @ b" by blast
    show "includesStr (c # cs) p"
    proof (cases a)
      case Nil
      with ab have "startsWith (c # cs) p" using startsWith_iff by auto
      then show ?thesis by simp
    next
      case (Cons x a')
      with ab have "cs = a' @ p @ b" by simp
      then have "includesStr cs p" using Cons.IH by blast
      then show ?thesis by simp
    qed
  qed
qed

lemma includes_api: "includesStr (API U @ ''/'' @ rest) ''/api/''"
proof -
  have "API U @ ''/'' @ rest = U @ ''/api/'' @ rest" by (simp add: API_def)
  then show ?thesis unfolding includes_iff by blast
qed

lemma requestInterceptor_keeps:
  "url (requestInterceptor ls config) = url config"
  "body (requestInterceptor ls config) = body config"
  "request_method (requestInterceptor ls config) = request_method config"
  by (simp_all add: requestInterceptor_def split: option.splits)

lemma trim_decomposition:
  "s = takeWhile isWhiteSpace s @ trim s
        @ rev (takeWhile isWhiteSpace (rev (dropWhile isWhiteSpace s)))"
proof -
  let ?d = "dropWhile isWhiteSpace s"
  have "?d = trim s @ rev (takeWhile isWhiteSpace (rev ?d))"
    unfolding trim_def by (metis rev_append rev_rev_ident takeWhile_dropWhile_id)
  moreover have "s = takeWhile isWhiteSpace s @ ?d" by simp
  ultimately show ?thesis by simp
qed

lemma trim_surroundings:
  "\<exists>a b. s = a @ trim s @ b \<and> (\<forall>c\<in>set a. isWhiteSpace c) \<and> (\<forall>c\<in>set b. isWhiteSpace c)"
proof -
  let ?a = "takeWhile isWhiteSpace s"
  let ?b = "rev (takeWhile isWhiteSpace (rev (dropWhile isWhiteSpace s)))"
  have "s = ?a @ trim s @ ?b" by (rule trim_decomposition)
  moreover have "\<forall>c\<in>set ?a. isWhiteSpace c" by (auto dest: set_takeWhileD)
  moreover have "\<forall>c\<in>set ?b. isWhiteSpace c" by (auto dest: set_takeWhileD)
  ultimately show ?thesis by blast
qed

lemma trim_ends:
  assumes "trim s \<noteq> []"
  shows "\<not> isWhiteSpace (hd (trim s))" and "\<not> isWhiteSpace (last (trim s))"
proof -
  let ?d = "dropWhile isWhiteSpace s"
  let ?e = "dropWhile isWhiteSpace (rev ?d)"
  from assms have e: "?e \<noteq> []" by (simp add: trim_def)
  have "last (trim s) = hd ?e" using e by (simp add: trim_def last_rev)
  moreover have "\<not> isWhiteSpace (hd ?e)" using e by (rule hd_dropWhile)
  ultimately show "\<not> isWhiteSpace (last (trim s))" by simp
  have d: "?d = trim s @ rev (takeWhile isWhiteSpace (rev ?d))"
    using trim_decomposition [of s] by (metis append_eq_append_conv takeWhile_dropWhile_id)
  with assms have "hd ?d = hd (trim s)" by (metis hd_append2)
  moreover from d assms have "?d \<noteq> []" by (metis Nil_is_append_conv)
  then have "\<not> isWhiteSpace (hd ?d)" by (rule hd_dropWhile)
  ultimately show "\<not> isWhiteSpace (hd (trim s))" by simp
qed

lemma trim_empty_iff: "trim s = [] \<longleftrightarrow> (\<forall>c\<in>set s. isWhiteSpace c)"
proof
  assume "trim s = []"
  then show "\<forall>c\<in>set s. isWhiteSpace c"
    using trim_surroundings [of s] by auto
next
  assume "\<forall>c\<in>set s. isWhiteSpace c"
  then have d: "dropWhile isWhiteSpace s = []" by simp
  show "trim s = []" unfolding trim_def d by simp
qed

lemma get_map:
  assumes "\<And>r. certificate_id (f r) = certificate_id r"
  shows "get (map f store) cid = map_option f (get store cid)"
  using assms by (induction store) (simp_all add: get_def)

lemma revoke_get:
  assumes "revoke store cid = Inr store'"
  shows "\<exists>r. get store cid = Some r \<and> get store' cid = Some (r\<lparr>is_active := False\<rparr>)"
proof -
  from assms obtain r where r: "get store cid = Some r"
    by (auto simp: revoke_def split: option.splits)
  have c: "certificate_id r = cid"
    using r by (auto simp: get_def dest: find_Some_iff [THEN iffD1])
  from assms r have s: "store' = map (\<lambda>r. if certificate_id r = cid then r\<lparr>is_active := False\<rparr> else r) store"
    by (simp add: revoke_def)
  have "get store' cid = map_option (\<lambda>r. if certificate_id r = cid then r\<lparr>is_active := False\<rparr> else r) (get store cid)"
    unfolding s by (rule get_map) simp
  with r c show ?thesis by simp
qed

lemma login_wire:
  "wire (snd (login BACKEND_URL srv w c))
   = wire w @ [requestInterceptor (localStorage w) (loginRequest BACKEND_URL c)]"
  by (auto simp: login_def axios_post_def axios_request_def Let_def
      responseInterceptor_def logout_def
      split: server_reply.splits option.splits)

lemma login_stores_presented:
  "localStorage (snd (login BACKEND_URL srv w c)) ''joinery_certificate'' = Some v
   \<Longrightarrow> v = c \<or> localStorage w ''joinery_certificate'' = Some v"
  by (auto simp: login_def axios_post_def axios_request_def Let_def
      responseInterceptor_def logout_def
      split: server_reply.splits option.splits if_splits)

text \<open>
  The login form never stores the empty string: what is under \<^verbatim>\<open>joinery_certificate\<close>
  after \<^verbatim>\<open>handleLogin\<close> is a non-empty string or what was there before.
\<close>

lemma handleLogin_never_stores_empty:
  assumes "localStorage (snd (handleLogin BACKEND_URL srv (p, w))) ''joinery_certificate'' = Some v"
  shows "v \<noteq> [] \<or> localStorage w ''joinery_certificate'' = Some v"
proof (cases "trim (page_certificate p) = []")
  case True
  with assms show ?thesis by (simp add: handleLogin_def)
next
  case False
  then have "snd (handleLogin BACKEND_URL srv (p, w))
             = snd (login BACKEND_URL srv w (trim (page_certificate p)))"
    by (simp add: handleLogin_def Let_def split: prod.splits)
  with assms False login_stores_presented [of BACKEND_URL srv w "trim (page_certificate p)" v]
  show ?thesis by auto
qed

section \<open>The request interceptor\<close>

text \<open>
  C4. While a (non-empty) certificate string is stored under the localStorage key
  \<^verbatim>\<open>joinery_certificate\<close>, the request interceptor sets the Authorization header of
  every request whose URL contains \<^verbatim>\<open>/api/\<close> to \<^verbatim>\<open>Bearer\<close>, a space and the stored
  string. A request whose URL does not contain \<^verbatim>\<open>/api/\<close>, or one made when nothing
  (or the empty string, which JavaScript takes as false) is stored, passes through
  unchanged. What leaves the browser is what the interceptor returns.
\<close>

theorem request_interceptor_bearer:
  "(ls ''joinery_certificate'' = Some c \<and> c \<noteq> [] \<and> (\<exists>a b. url config = a @ ''/api/'' @ b)
      \<longrightarrow> requestInterceptor ls config
            = config\<lparr>headers := (headers config)(''Authorization'' \<mapsto> ''Bearer '' @ c)\<rparr>)
   \<and> ((\<not> (\<exists>a b. url config = a @ ''/api/'' @ b) \<or> ls ''joinery_certificate'' = None
        \<or> ls ''joinery_certificate'' = Some [])
      \<longrightarrow> requestInterceptor ls config = config)
   \<and> wire (snd (axios_request srv w config))
       = wire w @ [requestInterceptor (localStorage w) config]"
proof (intro conjI impI)
  assume "ls ''joinery_certificate'' = Some c \<and> c \<noteq> [] \<and> (\<exists>a b. url config = a @ ''/api/'' @ b)"
  then show "requestInterceptor ls config
            = config\<lparr>headers := (headers config)(''Authorization'' \<mapsto> ''Bearer '' @ c)\<rparr>"
    by (simp add: requestInterceptor_def includes_iff bearer_def)
next
  assume "\<not> (\<exists>a b. url config = a @ ''/api/'' @ b) \<or> ls ''joinery_certificate'' = None
        \<or> ls ''joinery_certificate'' = Some []"
  then show "requestInterceptor ls config = config"
    by (auto simp: requestInterceptor_def includes_iff split: option.splits)
next
  show "wire (snd (axios_request srv w config))
       = wire w @ [requestInterceptor (localStorage w) config]"
    by (simp add: axios_request_def Let_def responseInterceptor_def logout_def
        split: server_reply.splits)
qed

theorem request_interceptor_bearer_witness:
  "requestInterceptor [''joinery_certificate'' \<mapsto> ''eyJ.abc.sig'']
     \<lparr>url = ''http://localhost:8001/api/projects'', request_method = GET, headers = Map.empty, body = NoBody\<rparr>
   = \<lparr>url = ''http://localhost:8001/api/projects'', request_method = GET,
      headers = [''Authorization'' \<mapsto> ''Bearer eyJ.abc.sig''], body = NoBody\<rparr>
   \<and> requestInterceptor [''joinery_certificate'' \<mapsto> ''eyJ.abc.sig'']
     \<lparr>url = ''http://localhost:8001/static/logo.png'', request_method = GET, headers = Map.empty, body = NoBody\<rparr>
   = \<lparr>url = ''http://localhost:8001/static/logo.png'', request_method = GET, headers = Map.empty, body = NoBody\<rparr>"
proof -
  have u: "\<exists>a b. ''http://localhost:8001/api/projects'' = a @ ''/api/'' @ b"
    using includes_iff [of "''http://localhost:8001/api/projects''" "''/api/''"] by simp
  have n: "\<not> (\<exists>a b. ''http://localhost:8001/static/logo.png'' = a @ ''/api/'' @ b)"
    using includes_iff [of "''http://localhost:8001/static/logo.png''" "''/api/''"] by simp
  show ?thesis
    using request_interceptor_bearer [of "[''joinery_certificate'' \<mapsto> ''eyJ.abc.sig'']" "''eyJ.abc.sig''"
        "\<lparr>url = ''http://localhost:8001/api/projects'', request_method = GET, headers = Map.empty, body = NoBody\<rparr>"]
      request_interceptor_bearer [of "[''joinery_certificate'' \<mapsto> ''eyJ.abc.sig'']" "''eyJ.abc.sig''"
        "\<lparr>url = ''http://localhost:8001/static/logo.png'', request_method = GET, headers = Map.empty, body = NoBody\<rparr>"]
      u n by simp
qed

section \<open>The response interceptor\<close>

text \<open>
  C9. When the response to any request has status 401, the promise is rejected and the
  response interceptor has called \<^verbatim>\<open>logout\<close>: \<^verbatim>\<open>user\<close> and \<^verbatim>\<open>certificate\<close> are null,
  the \<^verbatim>\<open>joinery_certificate\<close> entry is gone from localStorage, and \<^verbatim>\<open>isAuthenticated()\<close>
  is false.
\<close>

theorem unauthorized_response_clears_session:
  assumes "srv (wire w) (requestInterceptor (localStorage w) config) = Reply r"
    and "status r = 401"
  shows "fst (axios_request srv w config) = Rejected (Some r)
     \<and> snd (axios_request srv w config)
        = logout (w\<lparr>wire := wire w @ [requestInterceptor (localStorage w) config]\<rparr>)
     \<and> user (snd (axios_request srv w config)) = None
     \<and> certificate (snd (axios_request srv w config)) = None
     \<and> localStorage (snd (axios_request srv w config)) ''joinery_certificate'' = None
     \<and> \<not> isAuthenticated (snd (axios_request srv w config))"
  using assms
  by (simp add: axios_request_def Let_def validateStatus_def responseInterceptor_def
      logout_def isAuthenticated_def)

theorem unauthorized_response_clears_session_witness:
  "isAuthenticated
     \<lparr>user = Some \<lparr>client_name = ''Ada Doe'', client_email = ''ada@example.com''\<rparr>,
      certificate = Some ''eyJ.abc.sig'', loading = False,
      localStorage = [''joinery_certificate'' \<mapsto> ''eyJ.abc.sig''], wire = []\<rparr>
   \<and> \<not> isAuthenticated (snd (axios_request
       (\<lambda>seen q. Reply \<lparr>status = 401,
          data = \<lparr>data_user = None, data_detail = Some (JString ''Certificate has been revoked''),
                  data_certificates = []\<rparr>\<rparr>)
       \<lparr>user = Some \<lparr>client_name = ''Ada Doe'', client_email = ''ada@example.com''\<rparr>,
        certificate = Some ''eyJ.abc.sig'', loading = False,
        localStorage = [''joinery_certificate'' \<mapsto> ''eyJ.abc.sig''], wire = []\<rparr>
       \<lparr>url = ''http://localhost:8001/api/projects'', request_method = GET, headers = Map.empty,
        body = NoBody\<rparr>))"
proof -
  let ?r = "\<lparr>status = 401,
          data = \<lparr>data_user = None, data_detail = Some (JString ''Certificate has been revoked''),
                  data_certificates = []\<rparr>\<rparr>"
  let ?srv = "(\<lambda>seen q. Reply ?r) :: server"
  let ?w = "\<lparr>user = Some \<lparr>client_name = ''Ada Doe'', client_email = ''ada@example.com''\<rparr>,
        certificate = Some ''eyJ.abc.sig'', loading = False,
        localStorage = [''joinery_certificate'' \<mapsto> ''eyJ.abc.sig''], wire = []\<rparr>"
  let ?c = "\<lparr>url = ''http://localhost:8001/api/projects'', request_method = GET, headers = Map.empty,
        body = NoBody\<rparr>"
  have a: "?srv (wire ?w) (requestInterceptor (localStorage ?w) ?c) = Reply ?r" by simp
  have b: "status ?r = 401" by simp
  have "\<not> isAuthenticated (snd (axios_request ?srv ?w ?c))"
    using unauthorized_response_clears_session [OF a b] by blast
  moreover have "isAuthenticated ?w" by (simp add: isAuthenticated_def)
  ultimately show ?thesis by blast
qed

section \<open>Logging in\<close>

text \<open>
  C7. \<^verbatim>\<open>login\<close> posts \<^verbatim>\<open>{ certificate }\<close> to \<^verbatim>\<open>/auth/login\<close>. It reports success exactly
  when the request is answered with a 2xx response whose body has a \<^verbatim>\<open>user\<close> (the
  identity payload with \<^verbatim>\<open>client_name\<close> and \<^verbatim>\<open>client_email\<close>); it then returns that
  user, keeps it and the certificate string in the state, and stores the certificate
  string under the localStorage key \<^verbatim>\<open>joinery_certificate\<close>.
\<close>

theorem login_success_iff_user:
  "(success (fst (login BACKEND_URL srv w c)) \<longleftrightarrow>
      (\<exists>r u. srv (wire w) (requestInterceptor (localStorage w) (loginRequest BACKEND_URL c)) = Reply r
             \<and> validateStatus (status r) \<and> data_user (data r) = Some u))
   \<and> (\<forall>r u. srv (wire w) (requestInterceptor (localStorage w) (loginRequest BACKEND_URL c)) = Reply r
             \<and> validateStatus (status r) \<and> data_user (data r) = Some u
        \<longrightarrow> fst (login BACKEND_URL srv w c) = Success u
            \<and> user (snd (login BACKEND_URL srv w c)) = Some u
            \<and> certificate (snd (login BACKEND_URL srv w c)) = Some c
            \<and> localStorage (snd (login BACKEND_URL srv w c)) ''joinery_certificate'' = Some c)
   \<and> wire (snd (login BACKEND_URL srv w c))
       = wire w @ [requestInterceptor (localStorage w) (loginRequest BACKEND_URL c)]
   \<and> body (requestInterceptor (localStorage w) (loginRequest BACKEND_URL c)) = LoginBody c"
  by (auto simp: login_def axios_post_def axios_request_def Let_def success_def
      requestInterceptor_keeps responseInterceptor_def logout_def
      split: server_reply.splits option.splits)

theorem login_success_iff_user_witness:
  "success (fst (login ''http://localhost:8001''
      (replyWith \<lparr>status = 200,
         data = \<lparr>data_user = Some \<lparr>client_name = ''Ada Doe'', client_email = ''ada@example.com''\<rparr>,
                 data_detail = None, data_certificates = []\<rparr>\<rparr>)
      (initialWorld Map.empty) ''eyJ.abc.sig''))
   \<and> localStorage (snd (login ''http://localhost:8001''
      (replyWith \<lparr>status = 200,
         data = \<lparr>data_user = Some \<lparr>client_name = ''Ada Doe'', client_email = ''ada@example.com''\<rparr>,
                 data_detail = None, data_certificates = []\<rparr>\<rparr>)
      (initialWorld Map.empty) ''eyJ.abc.sig'')) ''joinery_certificate'' = Some ''eyJ.abc.sig''"
proof -
  let ?u = "\<lparr>client_name = ''Ada Doe'', client_email = ''ada@example.com''\<rparr>"
  let ?r = "\<lparr>status = 200,
         data = \<lparr>data_user = Some ?u, data_detail = None, data_certificates = []\<rparr>\<rparr>"
  let ?w = "initialWorld Map.empty"
  have h: "replyWith ?r (wire ?w)
             (requestInterceptor (localStorage ?w) (loginRequest ''http://localhost:8001'' ''eyJ.abc.sig''))
           = Reply ?r \<and> validateStatus (status ?r) \<and> data_user (data ?r) = Some ?u"
    by (simp add: replyWith_def validateStatus_def)
  from login_success_iff_user
         [of "''http://localhost:8001''" "replyWith ?r" ?w "''eyJ.abc.sig''"] h
  have "fst (login ''http://localhost:8001'' (replyWith ?r) ?w ''eyJ.abc.sig'') = Success ?u
      \<and> localStorage (snd (login ''http://localhost:8001'' (replyWith ?r) ?w ''eyJ.abc.sig''))
          ''joinery_certificate'' = Some ''eyJ.abc.sig''"
    by blast
  then show ?thesis by (simp add: success_def)
qed

text \<open>
  C3, as the code has it. When the server rejects a login (a response with a status
  outside 2xx), \<^verbatim>\<open>login\<close> returns \<^verbatim>\<open>{ success: false, error }\<close> and \<^verbatim>\<open>handleLogin\<close> sets
  the error of the login page to that same value. The error is the \<^verbatim>\<open>detail\<close> of the
  response body, as it is, whenever the detail is truthy (a non-empty string, or a value
  that is not a string and not \<^verbatim>\<open>null\<close>, \<^verbatim>\<open>false\<close> or zero), and the generic
  \<^verbatim>\<open>Authentication failed\<close> whenever the detail is absent or falsy. So a reason that
  the server puts into a truthy detail reaches the client, and the generic message is
  what the client sees for every rejection without such a detail.
\<close>

theorem login_failure_shows_detail:
  assumes "srv (wire w) (requestInterceptor (localStorage w) (loginRequest BACKEND_URL c)) = Reply r"
    and "\<not> validateStatus (status r)"
  shows "(\<forall>d. data_detail (data r) = Some d \<and> truthy d
            \<longrightarrow> fst (login BACKEND_URL srv w c) = Failure d)
     \<and> (data_detail (data r) = None \<or> (\<exists>d. data_detail (data r) = Some d \<and> \<not> truthy d)
            \<longrightarrow> fst (login BACKEND_URL srv w c) = Failure (JString ''Authentication failed''))
     \<and> (\<forall>p::login_page. trim (page_certificate p) = c \<and> c \<noteq> []
            \<longrightarrow> fst (login BACKEND_URL srv w c)
                = Failure (page_error (fst (handleLogin BACKEND_URL srv (p, w)))))"
proof -
  have l: "fst (login BACKEND_URL srv w c) = Failure (detailOr ''Authentication failed'' (Some r))"
    using assms by (simp add: login_def axios_post_def axios_request_def Let_def)
  have "\<forall>d. data_detail (data r) = Some d \<and> truthy d
            \<longrightarrow> fst (login BACKEND_URL srv w c) = Failure d"
    by (simp add: l detailOr_def)
  moreover have "data_detail (data r) = None \<or> (\<exists>d. data_detail (data r) = Some d \<and> \<not> truthy d)
            \<longrightarrow> fst (login BACKEND_URL srv w c) = Failure (JString ''Authentication failed'')"
    by (auto simp: l detailOr_def)
  moreover have "\<forall>p::login_page. trim (page_certificate p) = c \<and> c \<noteq> []
            \<longrightarrow> fst (login BACKEND_URL srv w c)
                = Failure (page_error (fst (handleLogin BACKEND_URL srv (p, w))))"
  proof (intro allI impI)
    fix p :: login_page
    assume t: "trim (page_certificate p) = c \<and> c \<noteq> []"
    obtain result w1 where e: "login BACKEND_URL srv w c = (result, w1)"
      by (cases "login BACKEND_URL srv w c")
    with l have f: "result = Failure (detailOr ''Authentication failed'' (Some r))" by simp
    from t e f have "page_error (fst (handleLogin BACKEND_URL srv (p, w)))
                     = detailOr ''Authentication failed'' (Some r)"
      by (simp add: handleLogin_def Let_def)
    with l show "fst (login BACKEND_URL srv w c)
                = Failure (page_error (fst (handleLogin BACKEND_URL srv (p, w))))"
      by simp
  qed
  ultimately show ?thesis by blast
qed

theorem login_failure_shows_detail_witness:
  "page_error (fst (handleLogin ''http://localhost:8001''
       (replyWith (unauthorized ''Certificate has expired''))
       (\<lparr>page_certificate = ''eyJ.abc.sig'', page_error = JString [], page_loading = False\<rparr>,
        initialWorld Map.empty)))
     = JString ''Certificate has expired''
   \<and> fst (login ''http://localhost:8001''
       (replyWith \<lparr>status = 422,
          data = \<lparr>data_user = None,
                  data_detail = Some (JArray [JObject [(''msg'', JString ''field required'')]]),
                  data_certificates = []\<rparr>\<rparr>)
       (initialWorld Map.empty) ''eyJ.abc.sig'')
     = Failure (JArray [JObject [(''msg'', JString ''field required'')]])
   \<and> fst (login ''http://localhost:8001''
       (replyWith \<lparr>status = 401,
          data = \<lparr>data_user = None, data_detail = None, data_certificates = []\<rparr>\<rparr>)
       (initialWorld Map.empty) ''eyJ.abc.sig'')
     = Failure (JString ''Authentication failed'')"
proof -
  let ?U = "''http://localhost:8001''"
  let ?c = "''eyJ.abc.sig''"
  let ?w = "initialWorld Map.empty"
  let ?p = "\<lparr>page_certificate = ''eyJ.abc.sig'', page_error = JString [], page_loading = False\<rparr>"
  let ?r1 = "unauthorized ''Certificate has expired''"
  let ?r2 = "\<lparr>status = 422,
          data = \<lparr>data_user = None,
                  data_detail = Some (JArray [JObject [(''msg'', JString ''field required'')]]),
                  data_certificates = []\<rparr>\<rparr>"
  let ?r3 = "\<lparr>status = 401,
          data = \<lparr>data_user = None, data_detail = None, data_certificates = []\<rparr>\<rparr>"
  have a: "\<And>r. replyWith r (wire ?w) (requestInterceptor (localStorage ?w) (loginRequest ?U ?c))
           = Reply r"
    by (simp add: replyWith_def)
  have b1: "\<not> validateStatus (status ?r1)" by (simp add: validateStatus_def unauthorized_def)
  have b2: "\<not> validateStatus (status ?r2)" by (simp add: validateStatus_def)
  have b3: "\<not> validateStatus (status ?r3)" by (simp add: validateStatus_def)
  have t: "trim (page_certificate ?p) = ?c \<and> ?c \<noteq> []"
    by (simp add: trim_def isWhiteSpace_def)
  have d1: "data_detail (data ?r1) = Some (JString ''Certificate has expired'')
            \<and> truthy (JString ''Certificate has expired'')"
    by (simp add: unauthorized_def)
  note h1 = login_failure_shows_detail
              [where srv = "replyWith ?r1" and w = ?w and BACKEND_URL = ?U and c = ?c and r = ?r1,
               OF a b1]
  from h1 d1 have "fst (login ?U (replyWith ?r1) ?w ?c) = Failure (JString ''Certificate has expired'')"
    by blast
  moreover from h1 t have "fst (login ?U (replyWith ?r1) ?w ?c)
       = Failure (page_error (fst (handleLogin ?U (replyWith ?r1) (?p, ?w))))"
    by blast
  ultimately have p1: "page_error (fst (handleLogin ?U (replyWith ?r1) (?p, ?w)))
       = JString ''Certificate has expired''"
    by simp
  have d2: "data_detail (data ?r2) = Some (JArray [JObject [(''msg'', JString ''field required'')]])
            \<and> truthy (JArray [JObject [(''msg'', JString ''field required'')]])"
    by simp
  have p2: "fst (login ?U (replyWith ?r2) ?w ?c)
            = Failure (JArray [JObject [(''msg'', JString ''field required'')]])"
    using login_failure_shows_detail
              [where srv = "replyWith ?r2" and w = ?w and BACKEND_URL = ?U and c = ?c and r = ?r2,
               OF a b2] d2
    by blast
  have d3: "data_detail (data ?r3) = None" by simp
  have p3: "fst (login ?U (replyWith ?r3) ?w ?c) = Failure (JString ''Authentication failed'')"
    using login_failure_shows_detail
              [where srv = "replyWith ?r3" and w = ?w and BACKEND_URL = ?U and c = ?c and r = ?r3,
               OF a b3] d3
    by blast
  from p1 p2 p3 show ?thesis by blast
qed

text \<open>
  C3, as stated, fails: a rejection whose detail names an expired certificate and one
  whose detail names a revoked certificate put two different messages on the login
  page.
\<close>

theorem login_failure_reason_visible:
  "page_error (fst (handleLogin ''http://localhost:8001''
       (replyWith (unauthorized ''Certificate has expired''))
       (\<lparr>page_certificate = ''eyJ.abc.sig'', page_error = JString [], page_loading = False\<rparr>,
        initialWorld Map.empty)))
     = JString ''Certificate has expired''
   \<and> page_error (fst (handleLogin ''http://localhost:8001''
       (replyWith (unauthorized ''Certificate has been revoked''))
       (\<lparr>page_certificate = ''eyJ.abc.sig'', page_error = JString [], page_loading = False\<rparr>,
        initialWorld Map.empty)))
     = JString ''Certificate has been revoked''
   \<and> fst (login ''http://localhost:8001'' (replyWith (unauthorized ''Certificate has expired''))
         (initialWorld Map.empty) ''eyJ.abc.sig'')
     \<noteq> fst (login ''http://localhost:8001'' (replyWith (unauthorized ''Certificate has been revoked''))
         (initialWorld Map.empty) ''eyJ.abc.sig'')"
  by (simp add: handleLogin_def trim_def isWhiteSpace_def login_def axios_post_def
      axios_request_def Let_def replyWith_def unauthorized_def validateStatus_def
      responseInterceptor_def detailOr_def)

section \<open>The login form\<close>

text \<open>
  C10. When the certificate text trims to the empty string, \<^verbatim>\<open>handleLogin\<close> sets the
  error \<^verbatim>\<open>Please enter your certificate\<close> and changes nothing else: \<^verbatim>\<open>login\<close> is not
  called and no request leaves the browser. Otherwise exactly one request is sent, the
  login request carrying the trimmed text, which neither starts nor ends with white
  space and differs from the text typed only by the white space around it.
\<close>

theorem handleLogin_empty_or_trimmed:
  "(trim (page_certificate p) = [] \<longrightarrow>
      handleLogin BACKEND_URL srv (p, w)
      = (p\<lparr>page_error := JString ''Please enter your certificate''\<rparr>, w))
   \<and> (trim (page_certificate p) \<noteq> [] \<longrightarrow>
        wire (snd (handleLogin BACKEND_URL srv (p, w)))
        = wire w @ [requestInterceptor (localStorage w)
                     (loginRequest BACKEND_URL (trim (page_certificate p)))]
      \<and> \<not> isWhiteSpace (hd (trim (page_certificate p)))
      \<and> \<not> isWhiteSpace (last (trim (page_certificate p)))
      \<and> (\<exists>a b. page_certificate p = a @ trim (page_certificate p) @ b
                \<and> (\<forall>c\<in>set a. isWhiteSpace c) \<and> (\<forall>c\<in>set b. isWhiteSpace c)))"
proof (intro conjI impI)
  assume "trim (page_certificate p) = []"
  then show "handleLogin BACKEND_URL srv (p, w)
      = (p\<lparr>page_error := JString ''Please enter your certificate''\<rparr>, w)"
    by (simp add: handleLogin_def)
next
  assume t: "trim (page_certificate p) \<noteq> []"
  then have "snd (handleLogin BACKEND_URL srv (p, w))
             = snd (login BACKEND_URL srv w (trim (page_certificate p)))"
    by (simp add: handleLogin_def Let_def split: prod.splits)
  then show "wire (snd (handleLogin BACKEND_URL srv (p, w)))
        = wire w @ [requestInterceptor (localStorage w)
                     (loginRequest BACKEND_URL (trim (page_certificate p)))]"
    by (simp add: login_wire)
  from t show "\<not> isWhiteSpace (hd (trim (page_certificate p)))" by (rule trim_ends)
  from t show "\<not> isWhiteSpace (last (trim (page_certificate p)))" by (rule trim_ends)
  show "\<exists>a b. page_certificate p = a @ trim (page_certificate p) @ b
                \<and> (\<forall>c\<in>set a. isWhiteSpace c) \<and> (\<forall>c\<in>set b. isWhiteSpace c)"
    by (rule trim_surroundings)
qed

theorem handleLogin_empty_or_trimmed_witness:
  "handleLogin ''http://localhost:8001'' (replyWith (unauthorized ''x''))
     (\<lparr>page_certificate = '' '', page_error = JString [], page_loading = False\<rparr>, initialWorld Map.empty)
   = (\<lparr>page_certificate = '' '', page_error = JString ''Please enter your certificate'',
       page_loading = False\<rparr>, initialWorld Map.empty)
   \<and> map body (wire (snd (handleLogin ''http://localhost:8001'' (replyWith (unauthorized ''x''))
        (\<lparr>page_certificate = '' eyJ.abc.sig '', page_error = JString [], page_loading = False\<rparr>,
         initialWorld Map.empty))))
     = [LoginBody ''eyJ.abc.sig'']"
proof -
  let ?p1 = "\<lparr>page_certificate = '' '', page_error = JString [], page_loading = False\<rparr>"
  let ?p2 = "\<lparr>page_certificate = '' eyJ.abc.sig '', page_error = JString [], page_loading = False\<rparr>"
  have t1: "trim '' '' = []" by (simp add: trim_def isWhiteSpace_def)
  have t2: "trim '' eyJ.abc.sig '' = ''eyJ.abc.sig''" by (simp add: trim_def isWhiteSpace_def)
  show ?thesis
    using handleLogin_empty_or_trimmed
            [of ?p1 "''http://localhost:8001''" "replyWith (unauthorized ''x'')" "initialWorld Map.empty"]
          handleLogin_empty_or_trimmed
            [of ?p2 "''http://localhost:8001''" "replyWith (unauthorized ''x'')" "initialWorld Map.empty"]
    by (simp add: t1 t2 requestInterceptor_keeps initialWorld_def)
qed

section \<open>Verification and revocation\<close>

text \<open>
  C1. Once \<open>revoke\<close> has succeeded for the identifier of a certificate, \<open>verify\<close>
  answers \<open>Revoked\<close> for that certificate although its signature verifies and its
  expiration has not passed; and whatever string is presented, at whatever time, no
  identity with the revoked identifier comes out of \<open>verify\<close>.
\<close>

theorem revoked_certificate_rejected:
  assumes "revoke store cid = Inr store'"
  shows "(\<forall>cl sg. parse C = Some (cl, sg) \<and> claim_certificate_id cl = cid
            \<and> verify_signature cl sg \<and> now \<le> claim_expires_at cl
          \<longrightarrow> verify parse verify_signature now store' C = Inl Revoked)
     \<and> (\<forall>t ident. verify parse verify_signature t store' C = Inr ident
          \<longrightarrow> auth_certificate_id ident \<noteq> cid)"
proof -
  from revoke_get [OF assms] obtain r where
    r: "get store' cid = Some (r\<lparr>is_active := False\<rparr>)" by blast
  show ?thesis
  proof (intro conjI allI impI)
    fix cl sg
    assume "parse C = Some (cl, sg) \<and> claim_certificate_id cl = cid
            \<and> verify_signature cl sg \<and> now \<le> claim_expires_at cl"
    with r show "verify parse verify_signature now store' C = Inl Revoked"
      by (simp add: verify_def)
  next
    fix t ident
    assume v: "verify parse verify_signature t store' C = Inr ident"
    show "auth_certificate_id ident \<noteq> cid"
    proof
      assume "auth_certificate_id ident = cid"
      with v r show False
        by (auto simp: verify_def split: option.splits prod.splits if_splits)
    qed
  qed
qed

theorem revoked_certificate_rejected_witness:
  "verify (\<lambda>s. if s = ''ada.sig''
                then Some (\<lparr>claim_certificate_id = ''c-1'', claim_client_name = ''Ada Doe'',
                            claim_client_email = ''ada@example.com'', claim_issued_at = 0,
                            claim_expires_at = 30\<rparr>, ''sig'')
                else None)
          (\<lambda>cl sg. sg = ''sig'') 1
          [\<lparr>client_name = ''Ada Doe'', client_email = ''ada@example.com'',
            certificate_id = ''c-1'', issued_at = 0, expires_at = 30, is_active = True,
            signed_certificate = ''ada.sig''\<rparr>] ''ada.sig''
     = Inr \<lparr>auth_client_name = ''Ada Doe'', auth_client_email = ''ada@example.com'',
            auth_certificate_id = ''c-1''\<rparr>
   \<and> revoke [\<lparr>client_name = ''Ada Doe'', client_email = ''ada@example.com'',
            certificate_id = ''c-1'', issued_at = 0, expires_at = 30, is_active = True,
            signed_certificate = ''ada.sig''\<rparr>] ''c-1''
     = Inr [\<lparr>client_name = ''Ada Doe'', client_email = ''ada@example.com'',
            certificate_id = ''c-1'', issued_at = 0, expires_at = 30, is_active = False,
            signed_certificate = ''ada.sig''\<rparr>]
   \<and> verify (\<lambda>s. if s = ''ada.sig''
                then Some (\<lparr>claim_certificate_id = ''c-1'', claim_client_name = ''Ada Doe'',
                            claim_client_email = ''ada@example.com'', claim_issued_at = 0,
                            claim_expires_at = 30\<rparr>, ''sig'')
                else None)
          (\<lambda>cl sg. sg = ''sig'') 1
          [\<lparr>client_name = ''Ada Doe'', client_email = ''ada@example.com'',
            certificate_id = ''c-1'', issued_at = 0, expires_at = 30, is_active = False,
            signed_certificate = ''ada.sig''\<rparr>] ''ada.sig''
     = Inl Revoked"
proof -
  let ?cl = "\<lparr>claim_certificate_id = ''c-1'', claim_client_name = ''Ada Doe'',
              claim_client_email = ''ada@example.com'', claim_issued_at = 0,
              claim_expires_at = 30\<rparr>"
  let ?P = "\<lambda>s. if s = ''ada.sig'' then Some (?cl, ''sig'') else None"
  let ?V = "\<lambda>(cl::claims) sg. sg = ''sig''"
  let ?r = "\<lparr>client_name = ''Ada Doe'', client_email = ''ada@example.com'',
            certificate_id = ''c-1'', issued_at = 0, expires_at = 30, is_active = True,
            signed_certificate = ''ada.sig''\<rparr>"
  have rv: "revoke [?r] ''c-1'' = Inr [?r\<lparr>is_active := False\<rparr>]"
    by (simp add: revoke_def get_def)
  have h: "?P ''ada.sig'' = Some (?cl, ''sig'') \<and> claim_certificate_id ?cl = ''c-1''
           \<and> ?V ?cl ''sig'' \<and> (1::int) \<le> claim_expires_at ?cl"
    by simp
  have "verify ?P ?V 1 [?r\<lparr>is_active := False\<rparr>] ''ada.sig'' = Inl Revoked"
    using revoked_certificate_rejected [OF rv, of ?P "''ada.sig''" ?V 1] h by blast
  moreover have "verify ?P ?V 1 [?r] ''ada.sig''
     = Inr \<lparr>auth_client_name = ''Ada Doe'', auth_client_email = ''ada@example.com'',
            auth_certificate_id = ''c-1''\<rparr>"
    by (simp add: verify_def get_def)
  ultimately show ?thesis using rv by simp
qed

text \<open>
  C2. \<open>verify\<close> fails at the first check that is violated, in the order parse
  (\<open>Malformed\<close>), signature (\<open>InvalidSignature\<close>), expiration (\<open>Expired\<close>), store
  lookup (\<open>Unknown\<close> when the identifier is absent, \<open>Revoked\<close> when its record is
  not active). The store is consulted only after the signature has verified (and the
  expiration has been checked): when an earlier check fails, the answer is the same
  over any two stores.
\<close>

theorem verify_checks_in_order:
  "(verify parse verify_signature now store s = Inl Malformed \<longleftrightarrow> parse s = None)
   \<and> (verify parse verify_signature now store s = Inl InvalidSignature \<longleftrightarrow>
        (\<exists>cl sg. parse s = Some (cl, sg) \<and> \<not> verify_signature cl sg))
   \<and> (verify parse verify_signature now store s = Inl Expired \<longleftrightarrow>
        (\<exists>cl sg. parse s = Some (cl, sg) \<and> verify_signature cl sg \<and> claim_expires_at cl < now))
   \<and> (verify parse verify_signature now store s = Inl Unknown \<longleftrightarrow>
        (\<exists>cl sg. parse s = Some (cl, sg) \<and> verify_signature cl sg \<and> now \<le> claim_expires_at cl
                 \<and> get store (claim_certificate_id cl) = None))
   \<and> (verify parse verify_signature now store s = Inl Revoked \<longleftrightarrow>
        (\<exists>cl sg r. parse s = Some (cl, sg) \<and> verify_signature cl sg \<and> now \<le> claim_expires_at cl
                 \<and> get store (claim_certificate_id cl) = Some r \<and> \<not> is_active r))
   \<and> ((parse s = None
         \<or> (\<exists>cl sg. parse s = Some (cl, sg)
                \<and> (\<not> verify_signature cl sg \<or> claim_expires_at cl < now)))
        \<longrightarrow> verify parse verify_signature now store s = verify parse verify_signature now store2 s)"
  by (auto simp: verify_def split: option.splits prod.splits)

theorem verify_checks_in_order_witness:
  "verify (\<lambda>s. if s = ''ada.bad''
                then Some (\<lparr>claim_certificate_id = ''c-1'', claim_client_name = ''Ada Doe'',
                            claim_client_email = ''ada@example.com'', claim_issued_at = 0,
                            claim_expires_at = 30\<rparr>, ''bad'')
                else None)
          (\<lambda>cl sg. sg = ''sig'') 1
          [\<lparr>client_name = ''Ada Doe'', client_email = ''ada@example.com'',
            certificate_id = ''c-1'', issued_at = 0, expires_at = 30, is_active = False,
            signed_certificate = ''ada.sig''\<rparr>] ''ada.bad''
     = Inl InvalidSignature
   \<and> verify (\<lambda>s. if s = ''ada.bad''
                then Some (\<lparr>claim_certificate_id = ''c-1'', claim_client_name = ''Ada Doe'',
                            claim_client_email = ''ada@example.com'', claim_issued_at = 0,
                            claim_expires_at = 30\<rparr>, ''bad'')
                else None)
          (\<lambda>cl sg. sg = ''sig'') 1
          [\<lparr>client_name = ''Ada Doe'', client_email = ''ada@example.com'',
            certificate_id = ''c-1'', issued_at = 0, expires_at = 30, is_active = False,
            signed_certificate = ''ada.sig''\<rparr>] ''ada.bad''
     = verify (\<lambda>s. if s = ''ada.bad''
                then Some (\<lparr>claim_certificate_id = ''c-1'', claim_client_name = ''Ada Doe'',
                            claim_client_email = ''ada@example.com'', claim_issued_at = 0,
                            claim_expires_at = 30\<rparr>, ''bad'')
                else None)
          (\<lambda>cl sg. sg = ''sig'') 1 [] ''ada.bad''"
proof -
  let ?cl = "\<lparr>claim_certificate_id = ''c-1'', claim_client_name = ''Ada Doe'',
              claim_client_email = ''ada@example.com'', claim_issued_at = 0,
              claim_expires_at = 30\<rparr>"
  let ?P = "\<lambda>s. if s = ''ada.bad'' then Some (?cl, ''bad'') else None"
  let ?V = "\<lambda>(cl::claims) sg. sg = ''sig''"
  let ?st = "[\<lparr>client_name = ''Ada Doe'', client_email = ''ada@example.com'',
            certificate_id = ''c-1'', issued_at = 0, expires_at = 30, is_active = False,
            signed_certificate = ''ada.sig''\<rparr>]"
  have h: "\<exists>cl sg. ?P ''ada.bad'' = Some (cl, sg) \<and> \<not> ?V cl sg" by simp
  then have h2: "?P ''ada.bad'' = None
         \<or> (\<exists>cl sg. ?P ''ada.bad'' = Some (cl, sg)
                \<and> (\<not> ?V cl sg \<or> claim_expires_at cl < 1))" by blast
  note t = verify_checks_in_order [of ?P ?V 1 ?st "''ada.bad''" "[]"]
  from t h have "verify ?P ?V 1 ?st ''ada.bad'' = Inl InvalidSignature" by blast
  moreover from t h2 have "verify ?P ?V 1 ?st ''ada.bad'' = verify ?P ?V 1 [] ''ada.bad''" by blast
  ultimately show ?thesis by blast
qed

section \<open>The certificate listing\<close>

text \<open>
  C8. The listing holds all the records of the store, each with the fields
  \<^verbatim>\<open>certificate_id\<close>, \<^verbatim>\<open>client_name\<close>, \<^verbatim>\<open>client_email\<close>, \<^verbatim>\<open>issued_at\<close>, \<^verbatim>\<open>expires_at\<close>,
  \<^verbatim>\<open>is_active\<close> and \<^verbatim>\<open>signed_certificate\<close>, ordered by issuance time with the most
  recently issued first; the table of the admin panel shows one row per record in
  that order.
\<close>

theorem listing_most_recent_first:
  "sorted_wrt (\<lambda>a b. issued_at b \<le> issued_at a) (list_records store)
   \<and> mset (list_records store) = mset store
   \<and> map row_key (map certificateRow (list_records store))
       = map certificate_id (list_records store)"
proof -
  have "sorted (map (\<lambda>r. - issued_at r) (list_records store))"
    unfolding list_records_def by (rule sorted_sort_key)
  then have "sorted_wrt (\<lambda>a b. issued_at b \<le> issued_at a) (list_records store)"
    by (simp add: sorted_map)
  moreover have "mset (list_records store) = mset store"
    by (simp add: list_records_def)
  moreover have "map row_key (map certificateRow (list_records store))
       = map certificate_id (list_records store)"
    by (simp add: certificateRow_def)
  ultimately show ?thesis by blast
qed

section \<open>The admin panel\<close>

text \<open>
  Every request of the admin panel goes to a URL under \<^verbatim>\<open>/api/\<close>, so it passes the
  request interceptor like any other: the Authorization header that leaves the browser
  is the admin secret only when no certificate is stored, and the stored certificate
  otherwise.
\<close>

lemma includes_api_path: "includesStr (API U @ CHR ''/'' # rest) ''/api/''"
  using includes_api [of U rest] by simp

lemma admin_request_authorization:
  "headers (requestInterceptor ls
      \<lparr>url = API U @ CHR ''/'' # rest, request_method = m, headers = hs, body = b\<rparr>)
     ''Authorization''
   = (case ls ''joinery_certificate'' of
        None \<Rightarrow> hs ''Authorization''
      | Some c \<Rightarrow> if c \<noteq> [] then Some (bearer c) else hs ''Authorization'')"
  by (simp add: requestInterceptor_def includes_api_path split: option.splits)

lemma axios_request_wire:
  "wire (snd (axios_request srv w config)) = wire w @ [requestInterceptor (localStorage w) config]"
  by (simp add: axios_request_def Let_def responseInterceptor_def logout_def
      split: server_reply.splits)

lemma axios_request_resolved:
  "fst (axios_request srv w config) = Resolved r \<Longrightarrow>
   localStorage (snd (axios_request srv w config)) = localStorage w"
  by (auto simp: axios_request_def Let_def split: server_reply.splits if_splits)

lemma authenticateAdmin_wire:
  "wire (snd (authenticateAdmin U srv (a, w)))
   = wire w @ [requestInterceptor (localStorage w)
       \<lparr>url = API U @ ''/admin/certificates'', request_method = GET,
        headers = adminHeaders a, body = NoBody\<rparr>]"
  by (simp add: authenticateAdmin_def axios_get_def Let_def axios_request_wire
      split: prod.splits axios_result.splits)
    (metis axios_request_wire snd_conv)


lemma two_admin_requests:
  assumes "axios_request srv w c1 = (res, w1)"
    and "axios_request srv w1 c2 = (res2, w2)"
  shows "wire w1 = wire w @ [requestInterceptor (localStorage w) c1]"
    and "res = Resolved r \<Longrightarrow>
         wire w2 = wire w @ [requestInterceptor (localStorage w) c1,
                             requestInterceptor (localStorage w) c2]"
proof -
  show a: "wire w1 = wire w @ [requestInterceptor (localStorage w) c1]"
    using axios_request_wire [of srv w c1] assms(1) by simp
  assume "res = Resolved r"
  then have "localStorage w1 = localStorage w"
    using axios_request_resolved [of srv w c1 r] assms(1) by simp
  then show "wire w2 = wire w @ [requestInterceptor (localStorage w) c1,
                             requestInterceptor (localStorage w) c2]"
    using axios_request_wire [of srv w1 c2] assms(2) a by simp
qed

lemma generateCertificate_wire:
  "wire (snd (generateCertificate U srv (a, w)))
   = wire w @
     requestInterceptor (localStorage w)
       \<lparr>url = API U @ ''/admin/generate-certificate'', request_method = POST,
        headers = adminHeaders a, body = CertificateRequest (newCertificate a)\<rparr>
     # (case fst (axios_request srv w
                   \<lparr>url = API U @ ''/admin/generate-certificate'', request_method = POST,
                    headers = adminHeaders a, body = CertificateRequest (newCertificate a)\<rparr>) of
          Rejected err \<Rightarrow> []
        | Resolved r \<Rightarrow>
            [requestInterceptor (localStorage w)
               \<lparr>url = API U @ ''/admin/certificates'', request_method = GET,
                headers = adminHeaders a, body = NoBody\<rparr>])"
proof -
  let ?c1 = "\<lparr>url = API U @ ''/admin/generate-certificate'', request_method = POST,
        headers = adminHeaders a, body = CertificateRequest (newCertificate a)\<rparr>"
  let ?c2 = "\<lparr>url = API U @ ''/admin/certificates'', request_method = GET,
                headers = adminHeaders a, body = NoBody\<rparr>"
  obtain res w1 where e1: "axios_request srv w ?c1 = (res, w1)"
    by (cases "axios_request srv w ?c1")
  obtain res2 w2 where e2: "axios_request srv w1 ?c2 = (res2, w2)"
    by (cases "axios_request srv w1 ?c2")
  note ws = two_admin_requests [OF e1 e2]
  show ?thesis
  proof (cases res)
    case (Rejected err)
    then show ?thesis
      using e1 ws(1) by (simp add: generateCertificate_def axios_post_def Let_def)
  next
    case (Resolved r)
    then show ?thesis
      using e1 e2 ws(2) [OF Resolved]
      by (simp add: generateCertificate_def axios_post_def axios_get_def Let_def
          split: axios_result.splits)
  qed
qed

lemma revokeCertificate_wire:
  "wire (snd (revokeCertificate U srv True (a, w) cid))
   = wire w @
     requestInterceptor (localStorage w)
       \<lparr>url = API U @ ''/admin/revoke-certificate?certificate_id='' @ cid,
        request_method = POST, headers = adminHeaders a, body = EmptyObject\<rparr>
     # (case fst (axios_request srv w
                   \<lparr>url = API U @ ''/admin/revoke-certificate?certificate_id='' @ cid,
                    request_method = POST, headers = adminHeaders a, body = EmptyObject\<rparr>) of
          Rejected err \<Rightarrow> []
        | Resolved r \<Rightarrow>
            [requestInterceptor (localStorage w)
               \<lparr>url = API U @ ''/admin/certificates'', request_method = GET,
                headers = adminHeaders a, body = NoBody\<rparr>])"
proof -
  let ?c1 = "\<lparr>url = API U @ ''/admin/revoke-certificate?certificate_id='' @ cid,
        request_method = POST, headers = adminHeaders a, body = EmptyObject\<rparr>"
  let ?c2 = "\<lparr>url = API U @ ''/admin/certificates'', request_method = GET,
                headers = adminHeaders a, body = NoBody\<rparr>"
  obtain res w1 where e1: "axios_request srv w ?c1 = (res, w1)"
    by (cases "axios_request srv w ?c1")
  obtain res2 w2 where e2: "axios_request srv w1 ?c2 = (res2, w2)"
    by (cases "axios_request srv w1 ?c2")
  note ws = two_admin_requests [OF e1 e2]
  show ?thesis
  proof (cases res)
    case (Rejected err)
    then show ?thesis
      using e1 ws(1) by (simp add: revokeCertificate_def axios_post_def Let_def)
  next
    case (Resolved r)
    then show ?thesis
      using e1 e2 ws(2) [OF Resolved]
      by (simp add: revokeCertificate_def axios_post_def axios_get_def Let_def
          split: axios_result.splits)
  qed
qed

lemma authenticateAdmin_authorization:
  "map (\<lambda>q. headers q ''Authorization'')
         (drop (length (wire w)) (wire (snd (authenticateAdmin U srv (a, w)))))
   = [case localStorage w ''joinery_certificate'' of
        None \<Rightarrow> Some (bearer (adminSecret a))
      | Some c \<Rightarrow> if c \<noteq> [] then Some (bearer c) else Some (bearer (adminSecret a))]"
  by (simp add: authenticateAdmin_wire admin_request_authorization adminHeaders_def
      split: option.splits)

lemma one_or_two_requests:
  assumes "f x = v" and "f y = v"
  shows "set (map f (x # (case res of Rejected err \<Rightarrow> [] | Resolved r \<Rightarrow> [y]))) = {v}"
  using assms by (cases res) simp_all

lemma generateCertificate_authorization:
  "set (map (\<lambda>q. headers q ''Authorization'')
         (drop (length (wire w)) (wire (snd (generateCertificate U srv (a, w))))))
   = {case localStorage w ''joinery_certificate'' of
        None \<Rightarrow> Some (bearer (adminSecret a))
      | Some c \<Rightarrow> if c \<noteq> [] then Some (bearer c) else Some (bearer (adminSecret a))}"
  unfolding generateCertificate_wire
  by (simp only: append_eq_conv_conj drop_append order_refl drop_all diff_self_eq_0 drop_0
      append_Nil)
    (rule one_or_two_requests;
      simp add: admin_request_authorization adminHeaders_def split: option.splits)

lemma revokeCertificate_authorization:
  "set (map (\<lambda>q. headers q ''Authorization'')
         (drop (length (wire w)) (wire (snd (revokeCertificate U srv True (a, w) cid)))))
   = {case localStorage w ''joinery_certificate'' of
        None \<Rightarrow> Some (bearer (adminSecret a))
      | Some c \<Rightarrow> if c \<noteq> [] then Some (bearer c) else Some (bearer (adminSecret a))}"
  unfolding revokeCertificate_wire
  by (simp only: append_eq_conv_conj drop_append order_refl drop_all diff_self_eq_0 drop_0
      append_Nil)
    (rule one_or_two_requests;
      simp add: admin_request_authorization adminHeaders_def split: option.splits)

text \<open>
  C5 says that every admin management call presents \<^verbatim>\<open>Bearer\<close> and the admin secret
  and that no client certificate authorizes these operations. With a client certificate
  in localStorage, the three admin calls (listing, issuing, revoking) leave the browser
  with \<^verbatim>\<open>Bearer\<close> and that certificate instead: the request interceptor overwrites the
  header that the admin panel has set.
\<close>

theorem admin_calls_carry_stored_certificate:
  "map (\<lambda>q. headers q ''Authorization'')
     (wire (snd (authenticateAdmin BACKEND_URL srv
        (initialAdminPanel\<lparr>adminSecret := ''joinery_admin_2024_secret_key''\<rparr>,
         initialWorld [''joinery_certificate'' \<mapsto> ''eyJ.abc.sig'']))))
     = [Some ''Bearer eyJ.abc.sig'']
   \<and> set (map (\<lambda>q. headers q ''Authorization'')
     (wire (snd (generateCertificate BACKEND_URL srv
        (initialAdminPanel\<lparr>adminSecret := ''joinery_admin_2024_secret_key''\<rparr>,
         initialWorld [''joinery_certificate'' \<mapsto> ''eyJ.abc.sig''])))))
     = {Some ''Bearer eyJ.abc.sig''}
   \<and> set (map (\<lambda>q. headers q ''Authorization'')
     (wire (snd (revokeCertificate BACKEND_URL srv True
        (initialAdminPanel\<lparr>adminSecret := ''joinery_admin_2024_secret_key''\<rparr>,
         initialWorld [''joinery_certificate'' \<mapsto> ''eyJ.abc.sig'']) ''c-1''))))
     = {Some ''Bearer eyJ.abc.sig''}
   \<and> ''Bearer eyJ.abc.sig''
       \<noteq> bearer (adminSecret (initialAdminPanel\<lparr>adminSecret := ''joinery_admin_2024_secret_key''\<rparr>))"
proof -
  let ?a = "initialAdminPanel\<lparr>adminSecret := ''joinery_admin_2024_secret_key''\<rparr>"
  let ?w = "initialWorld [''joinery_certificate'' \<mapsto> ''eyJ.abc.sig'']"
  have w: "wire ?w = []" "localStorage ?w ''joinery_certificate'' = Some ''eyJ.abc.sig''"
    by (simp_all add: initialWorld_def)
  have "map (\<lambda>q. headers q ''Authorization'') (wire (snd (authenticateAdmin BACKEND_URL srv (?a, ?w))))
        = [Some ''Bearer eyJ.abc.sig'']"
    using authenticateAdmin_authorization [of ?w BACKEND_URL srv ?a] by (simp add: w bearer_def)
  moreover have "set (map (\<lambda>q. headers q ''Authorization'')
          (wire (snd (generateCertificate BACKEND_URL srv (?a, ?w))))) = {Some ''Bearer eyJ.abc.sig''}"
    using generateCertificate_authorization [of ?w BACKEND_URL srv ?a] by (simp add: w bearer_def)
  moreover have "set (map (\<lambda>q. headers q ''Authorization'')
          (wire (snd (revokeCertificate BACKEND_URL srv True (?a, ?w) ''c-1''))))
        = {Some ''Bearer eyJ.abc.sig''}"
    using revokeCertificate_authorization [of ?w BACKEND_URL srv ?a "''c-1''"]
    by (simp add: w bearer_def)
  moreover have "''Bearer eyJ.abc.sig'' \<noteq> bearer (adminSecret ?a)"
    by (simp add: bearer_def)
  ultimately show ?thesis by blast
qed

text \<open>
  C6 says that the \<^verbatim>\<open>expires_days\<close> of every issuance request lies between 1 and 3650.
  An empty "Expires In (Days)" field violates no constraint of the input, its change
  handler stores \<^verbatim>\<open>parseInt('')\<close>, which is NaN, and \<^verbatim>\<open>generateCertificate\<close> posts the
  form state as it is: the request carries NaN.
\<close>

theorem blank_expires_days_sent_as_NaN:
  "expiresDaysSubmittable wholeNumber []
   \<and> newCertificate (changeExpiresDays []
        (initialAdminPanel\<lparr>newCertificate :=
           \<lparr>client_name = ''Ada Doe'', client_email = ''ada@example.com'',
            expires_days = Number 365\<rparr>\<rparr>))
     = \<lparr>client_name = ''Ada Doe'', client_email = ''ada@example.com'', expires_days = NaN\<rparr>
   \<and> map body (take 1 (wire (snd (generateCertificate BACKEND_URL srv
        (changeExpiresDays []
           (initialAdminPanel\<lparr>newCertificate :=
              \<lparr>client_name = ''Ada Doe'', client_email = ''ada@example.com'',
               expires_days = Number 365\<rparr>\<rparr>),
         initialWorld Map.empty)))))
     = [CertificateRequest
          \<lparr>client_name = ''Ada Doe'', client_email = ''ada@example.com'', expires_days = NaN\<rparr>]"
proof -
  let ?a = "initialAdminPanel\<lparr>newCertificate :=
           \<lparr>client_name = ''Ada Doe'', client_email = ''ada@example.com'',
            expires_days = Number 365\<rparr>\<rparr>"
  have p: "parseInt [] = NaN" by (simp add: parseInt_def)
  have n: "newCertificate (changeExpiresDays [] ?a)
     = \<lparr>client_name = ''Ada Doe'', client_email = ''ada@example.com'', expires_days = NaN\<rparr>"
    by (simp add: changeExpiresDays_def p)
  have "map body (take 1 (wire (snd (generateCertificate BACKEND_URL srv
          (changeExpiresDays [] ?a, initialWorld Map.empty)))))
        = [CertificateRequest (newCertificate (changeExpiresDays [] ?a))]"
    unfolding generateCertificate_wire
    by (simp add: initialWorld_def requestInterceptor_keeps)
  with n show ?thesis by (simp add: expiresDaysSubmittable_def)
qed

end
